theory Spec2Isabelle
  imports Main "HOL-Library.Word"
begin

section \<open>Data model\<close>

text \<open>
  The development covers the two sources of the repository: the connection adapter
  \<^verbatim>\<open>mqtt_connection<SocketType>\<close> of \<^verbatim>\<open>example/mqtt_pub.hpp\<close> and the
  address value \<^verbatim>\<open>ip::endpoint\<close> of \<^verbatim>\<open>include/ip/endpoint.hpp\<close>.

  A \<^verbatim>\<open>char\<close> is a byte, \<^verbatim>\<open>am::packet_id_type\<close> is a 16-bit identifier and
  \<^verbatim>\<open>::socklen_t\<close> an unsigned 32-bit integer. Buffer sizes (\<^verbatim>\<open>std::size_t\<close>) are
  natural numbers: every buffer lives in memory, so no sum of sizes wraps around.
  The result of the transport's \<^verbatim>\<open>Send\<close> (\<^verbatim>\<open>ssize_t\<close>) is an integer.
\<close>

type_synonym byte = "8 word"
type_synonym packet_id_type = "16 word"
type_synonym socklen_t = "32 word"

datatype qos = at_most_once | at_least_once | exactly_once

text \<open>
  The packet kinds that \<^verbatim>\<open>on_receive\<close> visits and that the adapter builds. A publish
  packet built without an identifier (the three-argument constructor of the source)
  carries \<open>None\<close>. Every kind the visitor does not name falls into \<open>other_packet\<close>.
  The reason code of a connect-acknowledgement is a byte; \<open>0\<close> is success.
\<close>

datatype packet_variant =
    connack_packet byte
  | publish_packet "packet_id_type option" string string qos
  | puback_packet packet_id_type
  | pubrec_packet packet_id_type
  | pubrel_packet packet_id_type
  | pubcomp_packet packet_id_type
  | disconnect_packet
  | other_packet

text \<open>
  What a callback does to its collaborators is recorded, call by call and in order, in
  a trace: the calls on the transport (\<^verbatim>\<open>socket_.Send\<close>, \<^verbatim>\<open>socket_.Close\<close>) and the
  calls into the protocol engine (\<^verbatim>\<open>release_packet_id\<close>, \<^verbatim>\<open>notify_closed\<close>,
  \<^verbatim>\<open>acquire_unique_packet_id\<close>, \<^verbatim>\<open>send\<close>). A \<open>Socket_Send\<close> holds the contents of
  the buffer passed, its length, the flags and the timeout. Console output is left out.
\<close>

datatype event =
    Socket_Send "byte list" nat int int
  | Socket_Close
  | Engine_release_packet_id packet_id_type
  | Engine_notify_closed
  | Engine_acquire_unique_packet_id "packet_id_type option"
  | Engine_send packet_variant

text \<open>
  A callback returns, or leaves by the exception \<^verbatim>\<open>am::system_error\<close> (of which the
  message is kept, the \<^verbatim>\<open>errno\<close> value is not), or runs into undefined behaviour
  (a copy outside a buffer, the dereference of an empty \<^verbatim>\<open>std::optional\<close>).
\<close>

datatype outcome = Returned | Thrown_system_error string | Undefined_behaviour

text \<open>
  \<^verbatim>\<open>SocketType\<close> is a template parameter that has to provide \<^verbatim>\<open>Send\<close>, \<^verbatim>\<open>Recv\<close> and
  \<^verbatim>\<open>Close\<close> (\<^verbatim>\<open>has_socket_api\<close>); the adapter calls \<^verbatim>\<open>Send\<close> and \<^verbatim>\<open>Close\<close> only.
  The transport is a parameter of the model: a state \<open>'s\<close> and the two operations, each
  giving its return value and the next state. The wire representation of a packet
  (\<^verbatim>\<open>packet.const_buffer_sequence()\<close>, an ordered sequence of byte segments) belongs to
  the protocol engine's packet encoding and is a parameter as well.
\<close>

record 's environment =
  Send :: "'s \<Rightarrow> byte list \<Rightarrow> nat \<Rightarrow> int \<Rightarrow> int \<Rightarrow> int \<times> 's"
  Close :: "'s \<Rightarrow> int \<times> 's"
  const_buffer_sequence :: "packet_variant \<Rightarrow> byte list list"

text \<open>
  The adapter: its member \<^verbatim>\<open>socket_\<close> (here \<open>socket\<close>), the pool of free packet
  identifiers of the engine it derives from, and the trace.
\<close>

record 's mqtt_connection =
  socket :: 's
  pid_pool :: "packet_id_type list"
  trace :: "event list"

definition record_event :: "event \<Rightarrow> 's mqtt_connection \<Rightarrow> 's mqtt_connection" where
  "record_event e c = c\<lparr>trace := trace c @ [e]\<rparr>"

section \<open>The protocol engine's side\<close>

definition on_packet_id_release :: "packet_id_type \<Rightarrow> 's mqtt_connection \<Rightarrow> 's mqtt_connection" where
  "on_packet_id_release packet_id c = c"

text \<open>
  Modelled from the spec: \<^verbatim>\<open>release_packet_id\<close> is a member of the engine base class
  \<^verbatim>\<open>am::connection\<close>, whose code is not among the sources. The spec: a packet identifier is
  "drawn from a finite pool, released on completion or failure"; releasing gives it
  "back to the protocol engine's pool immediately (so that identifier can be reused)";
  \<^verbatim>\<open>on_packet_id_release\<close> is the "notification that an identifier has been freed by the
  engine". The pool is the list of free identifiers; an identifier that is free already
  stays in it once.
\<close>

definition release_packet_id :: "packet_id_type \<Rightarrow> 's mqtt_connection \<Rightarrow> 's mqtt_connection" where
  "release_packet_id pid c =
     on_packet_id_release pid
       (record_event (Engine_release_packet_id pid)
          (c\<lparr>pid_pool := (if pid \<in> set (pid_pool c) then pid_pool c else pid_pool c @ [pid])\<rparr>))"

text \<open>
  Modelled from the spec: \<^verbatim>\<open>acquire_unique_packet_id\<close> of the engine base class, not among
  the sources. The spec: "unique packet-identifier acquisition"; "Identifier pool
  exhaustion: acquisition yields an empty result". The first free identifier is taken
  out of the pool, wherever the pool lists it, so that it is not free any more.
\<close>

definition acquire_unique_packet_id :: "'s mqtt_connection \<Rightarrow> packet_id_type option \<times> 's mqtt_connection" where
  "acquire_unique_packet_id c =
     (case pid_pool c of
        [] \<Rightarrow> (None, record_event (Engine_acquire_unique_packet_id None) c)
      | pid # free \<Rightarrow>
          (Some pid,
           record_event (Engine_acquire_unique_packet_id (Some pid))
             (c\<lparr>pid_pool := removeAll pid free\<rparr>)))"

text \<open>
  Modelled from the spec: \<^verbatim>\<open>notify_closed\<close> of the engine base class, not among the
  sources. The spec: "notify the protocol engine that the connection is closed", "a
  'notify closed' signal". The signal is recorded.
\<close>

definition notify_closed :: "'s mqtt_connection \<Rightarrow> 's mqtt_connection" where
  "notify_closed c = record_event Engine_notify_closed c"

section \<open>The adapter's outgoing path\<close>

text \<open>
  \<^verbatim>\<open>std::memcpy(dst + off, src, n)\<close> on a destination of known extent: \<open>None\<close> when the
  copy would leave the destination or read past the source.
\<close>

definition memcpy :: "byte list \<Rightarrow> nat \<Rightarrow> byte list \<Rightarrow> nat \<Rightarrow> byte list option" where
  "memcpy dst off src n =
     (if off + n \<le> length dst \<and> n \<le> length src
      then Some (take off dst @ take n src @ drop (off + n) dst)
      else None)"

text \<open>The first loop of \<^verbatim>\<open>on_send\<close>: \<^verbatim>\<open>total_size += buf.size()\<close>.\<close>

fun sum_sizes :: "byte list list \<Rightarrow> nat \<Rightarrow> nat" where
  "sum_sizes [] total_size = total_size"
| "sum_sizes (buf # buffers) total_size = sum_sizes buffers (total_size + length buf)"

text \<open>
  The second loop: \<^verbatim>\<open>memcpy(dest, buf.data(), buf.size()); dest += buf.size()\<close>, with
  \<open>dest\<close> the offset into \<^verbatim>\<open>flat_buffer\<close>.
\<close>

fun copy_segments :: "byte list list \<Rightarrow> nat \<Rightarrow> byte list \<Rightarrow> byte list option" where
  "copy_segments [] dest flat_buffer = Some flat_buffer"
| "copy_segments (buf # buffers) dest flat_buffer =
     (case memcpy flat_buffer dest buf (length buf) of
        None \<Rightarrow> None
      | Some flat_buffer' \<Rightarrow> copy_segments buffers (dest + length buf) flat_buffer')"

definition release_if_given :: "packet_id_type option \<Rightarrow> 's mqtt_connection \<Rightarrow> 's mqtt_connection" where
  "release_if_given release_packet_id_if_send_error c =
     (case release_packet_id_if_send_error of
        None \<Rightarrow> c
      | Some pid \<Rightarrow> release_packet_id pid c)"

text \<open>The \<^verbatim>\<open>try\<close> block of \<^verbatim>\<open>on_send\<close>.\<close>

definition on_send_try ::
  "'s environment \<Rightarrow> packet_variant \<Rightarrow> packet_id_type option \<Rightarrow> 's mqtt_connection
     \<Rightarrow> outcome \<times> 's mqtt_connection" where
  "on_send_try env packet release_packet_id_if_send_error c =
     (let buffers = const_buffer_sequence env packet;
          total_size = sum_sizes buffers 0
      in case copy_segments buffers 0 (replicate total_size 0) of
           None \<Rightarrow> (Undefined_behaviour, c)
         | Some flat_buffer \<Rightarrow>
             (let (sent, sock) = Send env (socket c) flat_buffer (length flat_buffer) 0 (- 1);
                  c1 = record_event (Socket_Send flat_buffer (length flat_buffer) 0 (- 1))
                         (c\<lparr>socket := sock\<rparr>)
              in if sent < 0 \<or> nat sent \<noteq> total_size
                 then (Thrown_system_error ''send failed'',
                       release_if_given release_packet_id_if_send_error c1)
                 else (Returned, c1)))"

text \<open>\<^verbatim>\<open>on_send\<close>: the \<^verbatim>\<open>try\<close> block under its handler, which releases and rethrows.\<close>

definition on_send ::
  "'s environment \<Rightarrow> packet_variant \<Rightarrow> packet_id_type option \<Rightarrow> 's mqtt_connection
     \<Rightarrow> outcome \<times> 's mqtt_connection" where
  "on_send env packet release_packet_id_if_send_error c =
     (case on_send_try env packet release_packet_id_if_send_error c of
        (Thrown_system_error what, c1) \<Rightarrow>
          (Thrown_system_error what, release_if_given release_packet_id_if_send_error c1)
      | (Returned, c1) \<Rightarrow> (Returned, c1)
      | (Undefined_behaviour, c1) \<Rightarrow> (Undefined_behaviour, c1))"

text \<open>The calls of the transport's \<^verbatim>\<open>Send\<close> in a list of events.\<close>

fun is_Socket_Send :: "event \<Rightarrow> bool" where
  "is_Socket_Send (Socket_Send b n f t) = True"
| "is_Socket_Send e = False"

definition socket_sends :: "event list \<Rightarrow> event list" where
  "socket_sends es = filter is_Socket_Send es"

text \<open>The events recorded between a state and a later one.\<close>

definition issued :: "'s mqtt_connection \<Rightarrow> 's mqtt_connection \<Rightarrow> event list" where
  "issued c c' = drop (length (trace c)) (trace c')"

text \<open>The packets handed to the engine's \<^verbatim>\<open>send\<close> in a list of events.\<close>

fun sent_packets :: "event list \<Rightarrow> packet_variant list" where
  "sent_packets [] = []"
| "sent_packets (Engine_send p # es) = p # sent_packets es"
| "sent_packets (e # es) = sent_packets es"

text \<open>
  Modelled from the spec: \<^verbatim>\<open>send\<close> of the engine base class, not among the sources. The
  spec: the adapter calls into the engine "to enqueue outgoing packets"; \<^verbatim>\<open>on_send\<close> is
  "the adapter's only interaction point for transmitting bytes" and is handed the
  packet with the identifier "associated with that packet"; "callbacks are invoked
  synchronously by the protocol engine's own event-processing"; a failure of the send
  is to "signal failure upward (propagate the condition; do not swallow it)". So
  \<open>send\<close> records the packet and calls \<^verbatim>\<open>on_send\<close> with the identifier that the packet
  carries, and what \<^verbatim>\<open>on_send\<close> raises reaches the caller of \<open>send\<close>.
\<close>

fun packet_id_of :: "packet_variant \<Rightarrow> packet_id_type option" where
  "packet_id_of (publish_packet pid topic payload q) = pid"
| "packet_id_of p = None"

definition send ::
  "'s environment \<Rightarrow> packet_variant \<Rightarrow> 's mqtt_connection \<Rightarrow> outcome \<times> 's mqtt_connection" where
  "send env packet c = on_send env packet (packet_id_of packet) (record_event (Engine_send packet) c)"

text \<open>
  The call of \<^verbatim>\<open>Send\<close> that \<^verbatim>\<open>on_send\<close> makes for a packet, and the state in which it
  leaves the socket.
\<close>

definition transport_write :: "'s environment \<Rightarrow> packet_variant \<Rightarrow> event" where
  "transport_write env packet =
     Socket_Send (concat (const_buffer_sequence env packet))
       (length (concat (const_buffer_sequence env packet))) 0 (- 1)"

definition socket_after :: "'s environment \<Rightarrow> packet_variant \<Rightarrow> 's \<Rightarrow> 's" where
  "socket_after env packet s =
     snd (Send env s (concat (const_buffer_sequence env packet))
            (length (concat (const_buffer_sequence env packet))) 0 (- 1))"

section \<open>The adapter's closing and incoming paths\<close>

text \<open>\<^verbatim>\<open>socket_.Close()\<close>; the status it returns is dropped by every caller.\<close>

definition socket_Close :: "'s environment \<Rightarrow> 's mqtt_connection \<Rightarrow> 's mqtt_connection" where
  "socket_Close env c =
     (let (status, sock) = Close env (socket c)
      in record_event Socket_Close (c\<lparr>socket := sock\<rparr>))"



text \<open>
  Modelled from the spec: \<^verbatim>\<open>make_error_code\<close> on a connect reason code and the test of
  its result, both of the library and not among the sources. The spec tells a
  connect-acknowledgement "with a failure reason code" from one "with success"; the
  success code is \<open>0\<close>.
\<close>

definition make_error_code :: "byte \<Rightarrow> bool" where
  "make_error_code code = (code \<noteq> 0)"

text \<open>
  Sequencing: the statements after a call run when the call returned; \<^verbatim>\<open>*opt\<close> on an
  empty \<^verbatim>\<open>std::optional\<close> is undefined behaviour.
\<close>

definition and_then ::
  "outcome \<times> 'c \<Rightarrow> ('c \<Rightarrow> outcome \<times> 'c) \<Rightarrow> outcome \<times> 'c" where
  "and_then r f = (case fst r of Returned \<Rightarrow> f (snd r) | _ \<Rightarrow> r)"

definition dereference ::
  "'a option \<times> 'c \<Rightarrow> ('a \<Rightarrow> 'c \<Rightarrow> outcome \<times> 'c) \<Rightarrow> outcome \<times> 'c" where
  "dereference r f = (case fst r of None \<Rightarrow> (Undefined_behaviour, snd r) | Some v \<Rightarrow> f v (snd r))"

fun on_receive ::
  "'s environment \<Rightarrow> packet_variant \<Rightarrow> 's mqtt_connection \<Rightarrow> outcome \<times> 's mqtt_connection" where
  "on_receive env (connack_packet code) c =
     (if make_error_code code
      then (Returned, notify_closed (socket_Close env c))
      else
        and_then (send env (publish_packet None ''topic1'' ''payload1'' at_most_once) c) (\<lambda>c.
        dereference (acquire_unique_packet_id c) (\<lambda>pid c.
        and_then (send env (publish_packet (Some pid) ''topic2'' ''payload2'' at_least_once) c) (\<lambda>c.
        dereference (acquire_unique_packet_id c) (\<lambda>pid c.
        send env (publish_packet (Some pid) ''topic3'' ''payload3'' exactly_once) c)))))"
| "on_receive env (publish_packet pid topic payload q) c = (Returned, c)"
| "on_receive env (puback_packet pid) c = (Returned, c)"
| "on_receive env (pubrec_packet pid) c = (Returned, c)"
| "on_receive env (pubrel_packet pid) c = (Returned, c)"
| "on_receive env (pubcomp_packet pid) c = send env disconnect_packet c"
| "on_receive env disconnect_packet c = (Returned, c)"
| "on_receive env other_packet c = (Returned, c)"

section \<open>The address value\<close>

text \<open>
  \<^verbatim>\<open>sizeof(::sockaddr_storage)\<close>, a constant of \<^verbatim>\<open><sys/socket.h>\<close>: 128 bytes.
\<close>

definition sockaddr_storage_size :: nat where
  "sockaddr_storage_size = 128"

record endpoint =
  d_data :: "byte list"
  d_size :: socklen_t

text \<open>The default constructor: \<^verbatim>\<open>d_data{}\<close>, \<^verbatim>\<open>d_size{sizeof(::sockaddr_storage)}\<close>.\<close>

definition endpoint_default :: endpoint where
  "endpoint_default =
     \<lparr>d_data = replicate sockaddr_storage_size 0, d_size = of_nat sockaddr_storage_size\<rparr>"

text \<open>
  The number of bytes that the byte constructor copies:
  \<^verbatim>\<open>::std::min(size, ::socklen_t(sizeof(::sockaddr_storage)))\<close>, the minimum of two
  \<^verbatim>\<open>socklen_t\<close>.
\<close>

definition copied :: "socklen_t \<Rightarrow> nat" where
  "copied sz = unat (min sz (of_nat sockaddr_storage_size))"

text \<open>
  \<^verbatim>\<open>endpoint(const void *data, ::socklen_t size)\<close>: \<^verbatim>\<open>d_size(size)\<close>, then the copy into
  the zero-initialised \<^verbatim>\<open>d_data\<close>. The source bytes are the list \<open>data\<close>; the result is
  \<open>None\<close> when the copy reads past the source (undefined behaviour).
\<close>

definition endpoint_from :: "byte list \<Rightarrow> socklen_t \<Rightarrow> endpoint option" where
  "endpoint_from data sz =
     (case memcpy (replicate sockaddr_storage_size 0) 0 data (copied sz) of
        None \<Rightarrow> None
      | Some bytes \<Rightarrow> Some \<lparr>d_data = bytes, d_size = sz\<rparr>)"

text \<open>
  \<^verbatim>\<open>endpoint(ET &e)\<close> delegates to the byte constructor with \<^verbatim>\<open>e.data()\<close> and
  \<^verbatim>\<open>e.size()\<close>; a provider is the pair of the two.
\<close>

definition endpoint_from_provider :: "byte list \<times> socklen_t \<Rightarrow> endpoint option" where
  "endpoint_from_provider e = endpoint_from (fst e) (snd e)"

text \<open>
  The accessors that change the value: a write of \<open>bytes\<close> at offset \<open>off\<close> through
  \<^verbatim>\<open>storage()\<close> or \<^verbatim>\<open>data()\<close> (undefined when it leaves the storage), and an assignment
  through the reference that the non-const \<^verbatim>\<open>size()\<close> returns.
\<close>

datatype endpoint_access = Write_storage nat "byte list" | Assign_size socklen_t

fun access :: "endpoint_access \<Rightarrow> endpoint \<Rightarrow> endpoint option" where
  "access (Write_storage off bytes) e =
     (case memcpy (d_data e) off bytes (length bytes) of
        None \<Rightarrow> None
      | Some stored \<Rightarrow> Some (e\<lparr>d_data := stored\<rparr>))"
| "access (Assign_size sz) e = Some (e\<lparr>d_size := sz\<rparr>)"

fun accesses :: "endpoint_access list \<Rightarrow> endpoint \<Rightarrow> endpoint option" where
  "accesses [] e = Some e"
| "accesses (a # as) e = (case access a e of None \<Rightarrow> None | Some e' \<Rightarrow> accesses as e')"

text \<open>A length that does not exceed the capacity of the storage.\<close>

definition within_capacity :: "socklen_t \<Rightarrow> bool" where
  "within_capacity sz = (unat sz \<le> sockaddr_storage_size)"

fun access_within_capacity :: "endpoint_access \<Rightarrow> bool" where
  "access_within_capacity (Assign_size sz) = within_capacity sz"
| "access_within_capacity (Write_storage off bytes) = True"

text \<open>
  The two ways to construct an address value, with the length that each puts into the
  length field, and the length that a sequence of accesses leaves there: the last one
  assigned, or the one the value had.
\<close>

datatype endpoint_construction = Default_constructed | Constructed_from "byte list" socklen_t

fun construct :: "endpoint_construction \<Rightarrow> endpoint option" where
  "construct Default_constructed = Some endpoint_default"
| "construct (Constructed_from data sz) = endpoint_from data sz"

fun given_length :: "endpoint_construction \<Rightarrow> socklen_t" where
  "given_length Default_constructed = of_nat sockaddr_storage_size"
| "given_length (Constructed_from data sz) = sz"

fun stored_length :: "socklen_t \<Rightarrow> endpoint_access list \<Rightarrow> socklen_t" where
  "stored_length sz [] = sz"
| "stored_length sz (Assign_size v # as) = stored_length v as"
| "stored_length sz (Write_storage off bytes # as) = stored_length sz as"

section \<open>Sample collaborators\<close>

text \<open>
  Transports to run the adapter on: one that writes everything it is given and keeps
  what was written, one that writes all but the last byte, one that fails; and a small
  wire representation of two segments per packet.
\<close>

definition sample_buffers :: "packet_variant \<Rightarrow> byte list list" where
  "sample_buffers p =
     (case p of
        publish_packet pid topic payload q \<Rightarrow>
          [48 # map (of_nat \<circ> of_char) topic, map (of_nat \<circ> of_char) payload]
      | disconnect_packet \<Rightarrow> [[224], [0]]
      | _ \<Rightarrow> [[0], []])"

definition writing_transport :: "(byte list list) environment" where
  "writing_transport =
     \<lparr>Send = (\<lambda>s buf n flags timeout. (int n, s @ [buf])),
      Close = (\<lambda>s. (0, s)),
      const_buffer_sequence = sample_buffers\<rparr>"

definition short_transport :: "(byte list list) environment" where
  "short_transport =
     \<lparr>Send = (\<lambda>s buf n flags timeout. (int n - 1, s @ [butlast buf])),
      Close = (\<lambda>s. (0, s)),
      const_buffer_sequence = sample_buffers\<rparr>"

definition failing_transport :: "(byte list list) environment" where
  "failing_transport =
     \<lparr>Send = (\<lambda>s buf n flags timeout. (- 1, s)),
      Close = (\<lambda>s. (- 1, s)),
      const_buffer_sequence = sample_buffers\<rparr>"

definition fresh_connection :: "packet_id_type list \<Rightarrow> (byte list list) mqtt_connection" where
  "fresh_connection free = \<lparr>socket = [], pid_pool = free, trace = []\<rparr>"

section \<open>Flattening the segments\<close>

lemma sum_sizes_eq: "sum_sizes buffers n = n + length (concat buffers)"
  by (induction buffers arbitrary: n) auto

lemma copy_segments_concat:
  "dest + length (concat buffers) \<le> length flat \<Longrightarrow>
   copy_segments buffers dest flat =
     Some (take dest flat @ concat buffers @ drop (dest + length (concat buffers)) flat)"
proof (induction buffers arbitrary: dest flat)
  case Nil
  then show ?case by simp
next
  case (Cons buf buffers)
  let ?flat' = "take dest flat @ buf @ drop (dest + length buf) flat"
  from Cons.prems have fit: "dest + length buf \<le> length flat"
    by simp
  then have step: "memcpy flat dest buf (length buf) = Some ?flat'"
    by (simp add: memcpy_def)
  have len: "length ?flat' = length flat"
    using fit by simp
  have rest: "dest + length buf + length (concat buffers) \<le> length ?flat'"
    using Cons.prems len by simp
  have tk: "take (dest + length buf) ?flat' = take dest flat @ buf"
    using fit by simp
  have dr: "drop (dest + length buf + length (concat buffers)) ?flat'
              = drop (dest + length buf + length (concat buffers)) flat"
    using fit by (simp add: ac_simps)
  show ?case
    using Cons.IH [OF rest] step tk dr by (simp add: ac_simps)
qed

lemma flat_buffer_is_concat:
  "copy_segments buffers 0 (replicate (sum_sizes buffers 0) 0) = Some (concat buffers)"
  using copy_segments_concat [of 0 buffers "replicate (sum_sizes buffers 0) 0"]
  by (simp add: sum_sizes_eq)

section \<open>What \<open>on_send\<close> does\<close>

lemma trace_release_if_given:
  "trace (release_if_given rel c) =
     trace c @ (case rel of None \<Rightarrow> [] | Some pid \<Rightarrow> [Engine_release_packet_id pid])"
  by (simp add: release_if_given_def release_packet_id_def on_packet_id_release_def
        record_event_def split: option.splits)

lemma socket_release_if_given: "socket (release_if_given rel c) = socket c"
  by (simp add: release_if_given_def release_packet_id_def on_packet_id_release_def
        record_event_def split: option.splits)

lemma issuedI: "trace c' = trace c @ es \<Longrightarrow> issued c c' = es"
  by (simp add: issued_def)

text \<open>
  The copy loop never leaves \<^verbatim>\<open>flat_buffer\<close>, so \<^verbatim>\<open>on_send\<close> is one call of \<^verbatim>\<open>Send\<close> on
  the concatenation of the segments and a test of what it returns.
\<close>

lemma on_send_unfold:
  assumes "Send env (socket c) (concat (const_buffer_sequence env packet))
             (length (concat (const_buffer_sequence env packet))) 0 (- 1) = (sent, sock)"
  shows "on_send env packet rel c =
     (if sent < 0 \<or> nat sent \<noteq> length (concat (const_buffer_sequence env packet))
      then (Thrown_system_error ''send failed'',
            release_if_given rel (release_if_given rel
              (record_event (Socket_Send (concat (const_buffer_sequence env packet))
                 (length (concat (const_buffer_sequence env packet))) 0 (- 1))
                 (c\<lparr>socket := sock\<rparr>))))
      else (Returned,
            record_event (Socket_Send (concat (const_buffer_sequence env packet))
                 (length (concat (const_buffer_sequence env packet))) 0 (- 1))
                 (c\<lparr>socket := sock\<rparr>)))"
proof -
  have total: "sum_sizes (const_buffer_sequence env packet) 0
                 = length (concat (const_buffer_sequence env packet))"
    by (simp add: sum_sizes_eq)
  have flat: "copy_segments (const_buffer_sequence env packet) 0
                (replicate (length (concat (const_buffer_sequence env packet))) 0)
              = Some (concat (const_buffer_sequence env packet))"
    using flat_buffer_is_concat [of "const_buffer_sequence env packet"] by (simp only: total)
  show ?thesis
    using assms by (simp add: on_send_def on_send_try_def total flat Let_def)
qed


lemma released_in_pool: "pid \<in> set (pid_pool (release_packet_id pid c))"
  by (simp add: release_packet_id_def on_packet_id_release_def record_event_def)

lemma pid_pool_record_event: "pid_pool (record_event e c) = pid_pool c"
  by (simp add: record_event_def)

lemma trace_release_packet_id:
  "trace (release_packet_id pid c) = trace c @ [Engine_release_packet_id pid]"
  by (simp add: release_packet_id_def on_packet_id_release_def record_event_def)

text \<open>
  Claim C1. For every outgoing packet passed to \<^verbatim>\<open>on_send\<close> whose buffer segments total
  \<open>S\<close> bytes, \<^verbatim>\<open>on_send\<close> calls the transport's \<^verbatim>\<open>Send\<close> exactly once, with one
  contiguous buffer of exactly \<open>S\<close> bytes that is the concatenation of the segments in
  order. The calls of \<^verbatim>\<open>Send\<close> that \<^verbatim>\<open>on_send\<close> records are this one call, whatever the
  transport answers and whether or not an identifier was given; the socket is left
  in the state that this call produces.
\<close>

theorem on_send_single_write:
  "socket_sends (issued c (snd (on_send env packet rel c))) =
     [Socket_Send (concat (const_buffer_sequence env packet))
        (sum_list (map length (const_buffer_sequence env packet))) 0 (- 1)]
   \<and> length (concat (const_buffer_sequence env packet))
       = sum_list (map length (const_buffer_sequence env packet))
   \<and> socket (snd (on_send env packet rel c)) =
       snd (Send env (socket c) (concat (const_buffer_sequence env packet))
              (sum_list (map length (const_buffer_sequence env packet))) 0 (- 1))"
proof -
  let ?flat = "concat (const_buffer_sequence env packet)"
  obtain sent sock where s: "Send env (socket c) ?flat (length ?flat) 0 (- 1) = (sent, sock)"
    by (cases "Send env (socket c) ?flat (length ?flat) 0 (- 1)")
  have len: "length ?flat = sum_list (map length (const_buffer_sequence env packet))"
    by (simp add: length_concat)
  have no_send: "filter is_Socket_Send
          (case rel of None \<Rightarrow> [] | Some pid \<Rightarrow> [Engine_release_packet_id pid]) = []"
    by (cases rel) simp_all
  have "socket_sends (issued c (snd (on_send env packet rel c))) =
          [Socket_Send ?flat (length ?flat) 0 (- 1)]"
  proof (cases "sent < 0 \<or> nat sent \<noteq> length ?flat")
    case True
    then have "trace (snd (on_send env packet rel c)) =
        trace c @ Socket_Send ?flat (length ?flat) 0 (- 1) #
          (case rel of None \<Rightarrow> [] | Some pid \<Rightarrow> [Engine_release_packet_id pid]) @
          (case rel of None \<Rightarrow> [] | Some pid \<Rightarrow> [Engine_release_packet_id pid])"
      by (simp add: on_send_unfold [OF s] trace_release_if_given record_event_def)
    from issuedI [OF this] show ?thesis
      by (simp add: socket_sends_def no_send)
  next
    case False
    then have "trace (snd (on_send env packet rel c)) =
        trace c @ [Socket_Send ?flat (length ?flat) 0 (- 1)]"
      by (simp add: on_send_unfold [OF s] record_event_def)
    from issuedI [OF this] show ?thesis
      by (simp add: socket_sends_def)
  qed
  moreover have "socket (snd (on_send env packet rel c)) = sock"
    by (simp add: on_send_unfold [OF s] socket_release_if_given record_event_def)
  ultimately show ?thesis
    using s len by simp
qed

theorem on_send_single_write_witness:
  "socket_sends (issued (fresh_connection [])
      (snd (on_send writing_transport (publish_packet None ''t'' ''hi'' at_most_once) None
              (fresh_connection [])))) = [Socket_Send [48, 116, 104, 105] 4 0 (- 1)]
   \<and> socket (snd (on_send writing_transport (publish_packet None ''t'' ''hi'' at_most_once) None
              (fresh_connection []))) = [[48, 116, 104, 105]]"
  using on_send_single_write [of "fresh_connection []" writing_transport
          "publish_packet None ''t'' ''hi'' at_most_once" None]
  by (simp add: writing_transport_def sample_buffers_def fresh_connection_def)

text \<open>
  Claim C2. When the transport's \<^verbatim>\<open>Send\<close> returns a negative value or a count smaller
  than the total size and an identifier was supplied, the identifier has been released
  to the engine (the release is recorded and the identifier is in the pool) when the
  failure leaves \<^verbatim>\<open>on_send\<close>; when \<^verbatim>\<open>Send\<close> returns exactly the total size, \<^verbatim>\<open>on_send\<close>
  returns, the identifier is not released and the pool is unchanged.
\<close>

theorem on_send_release_before_failure:
  assumes s: "Send env (socket c) (concat (const_buffer_sequence env packet))
             (length (concat (const_buffer_sequence env packet))) 0 (- 1) = (sent, sock)"
  shows "((sent < 0 \<or> sent < int (length (concat (const_buffer_sequence env packet)))) \<longrightarrow>
            fst (on_send env packet (Some pid) c) = Thrown_system_error ''send failed'' \<and>
            Engine_release_packet_id pid \<in> set (issued c (snd (on_send env packet (Some pid) c))) \<and>
            pid \<in> set (pid_pool (snd (on_send env packet (Some pid) c))))
       \<and> (sent = int (length (concat (const_buffer_sequence env packet))) \<longrightarrow>
            fst (on_send env packet (Some pid) c) = Returned \<and>
            Engine_release_packet_id pid \<notin> set (issued c (snd (on_send env packet (Some pid) c))) \<and>
            pid_pool (snd (on_send env packet (Some pid) c)) = pid_pool c)"
proof (intro conjI impI)
  let ?flat = "concat (const_buffer_sequence env packet)"
  let ?c1 = "record_event (Socket_Send ?flat (length ?flat) 0 (- 1)) (c\<lparr>socket := sock\<rparr>)"
  {
    assume "sent < 0 \<or> sent < int (length ?flat)"
    then have bad: "sent < 0 \<or> nat sent \<noteq> length ?flat"
      by auto
    have res: "on_send env packet (Some pid) c =
        (Thrown_system_error ''send failed'', release_packet_id pid (release_packet_id pid ?c1))"
      using bad by (simp add: on_send_unfold [OF s] release_if_given_def)
    show "fst (on_send env packet (Some pid) c) = Thrown_system_error ''send failed''"
      by (simp add: res)
    have "trace (snd (on_send env packet (Some pid) c)) =
            trace c @ [Socket_Send ?flat (length ?flat) 0 (- 1),
                       Engine_release_packet_id pid, Engine_release_packet_id pid]"
      by (simp add: res trace_release_packet_id record_event_def)
    from issuedI [OF this]
    show "Engine_release_packet_id pid \<in> set (issued c (snd (on_send env packet (Some pid) c)))"
      by simp
    show "pid \<in> set (pid_pool (snd (on_send env packet (Some pid) c)))"
      by (simp add: res released_in_pool)
  }
  {
    assume "sent = int (length ?flat)"
    then have good: "\<not> (sent < 0 \<or> nat sent \<noteq> length ?flat)"
      by auto
    have res: "on_send env packet (Some pid) c = (Returned, ?c1)"
      using good by (simp add: on_send_unfold [OF s])
    show "fst (on_send env packet (Some pid) c) = Returned"
      by (simp add: res)
    have "trace (snd (on_send env packet (Some pid) c)) =
            trace c @ [Socket_Send ?flat (length ?flat) 0 (- 1)]"
      by (simp add: res record_event_def)
    from issuedI [OF this]
    show "Engine_release_packet_id pid \<notin> set (issued c (snd (on_send env packet (Some pid) c)))"
      by simp
    show "pid_pool (snd (on_send env packet (Some pid) c)) = pid_pool c"
      by (simp add: res record_event_def)
  }
qed

theorem on_send_release_before_failure_witness:
  "fst (on_send short_transport (publish_packet (Some 7) ''t'' ''hi'' at_least_once) (Some 7)
          (fresh_connection [1, 2])) = Thrown_system_error ''send failed''
   \<and> Engine_release_packet_id 7 \<in> set (issued (fresh_connection [1, 2])
         (snd (on_send short_transport (publish_packet (Some 7) ''t'' ''hi'' at_least_once) (Some 7)
                (fresh_connection [1, 2]))))
   \<and> 7 \<in> set (pid_pool
         (snd (on_send short_transport (publish_packet (Some 7) ''t'' ''hi'' at_least_once) (Some 7)
                (fresh_connection [1, 2]))))
   \<and> fst (on_send writing_transport (publish_packet (Some 7) ''t'' ''hi'' at_least_once) (Some 7)
          (fresh_connection [1, 2])) = Returned
   \<and> Engine_release_packet_id 7 \<notin> set (issued (fresh_connection [1, 2])
         (snd (on_send writing_transport (publish_packet (Some 7) ''t'' ''hi'' at_least_once) (Some 7)
                (fresh_connection [1, 2]))))
   \<and> pid_pool
         (snd (on_send writing_transport (publish_packet (Some 7) ''t'' ''hi'' at_least_once) (Some 7)
                (fresh_connection [1, 2]))) = [1, 2]"
  using on_send_release_before_failure [where env = short_transport
          and c = "fresh_connection [1, 2]"
          and packet = "publish_packet (Some 7) ''t'' ''hi'' at_least_once"
          and sent = 3 and sock = "[[48, 116, 104]]" and pid = 7]
        on_send_release_before_failure [where env = writing_transport
          and c = "fresh_connection [1, 2]"
          and packet = "publish_packet (Some 7) ''t'' ''hi'' at_least_once"
          and sent = 4 and sock = "[[48, 116, 104, 105]]" and pid = 7]
  by (simp add: short_transport_def writing_transport_def sample_buffers_def fresh_connection_def)



section \<open>Closing\<close>

lemma trace_socket_Close: "trace (socket_Close env c) = trace c @ [Socket_Close]"
  by (simp add: socket_Close_def record_event_def split: prod.splits)

lemma trace_notify_closed: "trace (notify_closed c) = trace c @ [Engine_notify_closed]"
  by (simp add: notify_closed_def record_event_def)






section \<open>What \<open>on_receive\<close> does\<close>

text \<open>
  Claim C5. For every connect-acknowledgement with a failure reason code, \<^verbatim>\<open>on_receive\<close>
  closes the transport, notifies the engine that the connection is closed, and returns;
  these are its only two calls, so no publish is attempted.
\<close>

theorem failed_connack_closes:
  assumes "make_error_code code"
  shows "fst (on_receive env (connack_packet code) c) = Returned
       \<and> issued c (snd (on_receive env (connack_packet code) c)) = [Socket_Close, Engine_notify_closed]
       \<and> sent_packets (issued c (snd (on_receive env (connack_packet code) c))) = []
       \<and> socket (snd (on_receive env (connack_packet code) c)) = snd (Close env (socket c))"
proof -
  have res: "on_receive env (connack_packet code) c = (Returned, notify_closed (socket_Close env c))"
    using assms by simp
  have "trace (snd (on_receive env (connack_packet code) c)) =
          trace c @ [Socket_Close, Engine_notify_closed]"
    unfolding res by (simp add: trace_notify_closed trace_socket_Close)
  note iss = issuedI [OF this]
  have "socket (snd (on_receive env (connack_packet code) c)) = snd (Close env (socket c))"
    unfolding res
    by (simp add: notify_closed_def socket_Close_def record_event_def split: prod.splits)
  moreover have "fst (on_receive env (connack_packet code) c) = Returned"
    unfolding res by simp
  ultimately show ?thesis
    unfolding iss by simp
qed

theorem failed_connack_closes_witness:
  "make_error_code 135
   \<and> on_receive failing_transport (connack_packet 135) (fresh_connection [1, 2])
       = (Returned, \<lparr>socket = [], pid_pool = [1, 2], trace = [Socket_Close, Engine_notify_closed]\<rparr>)"
  using failed_connack_closes [of 135 failing_transport "fresh_connection [1, 2]"]
  by (simp add: make_error_code_def failing_transport_def fresh_connection_def
        notify_closed_def socket_Close_def record_event_def)





lemma send_written_in_full:
  assumes "\<forall>s buf. fst (Send env s buf (length buf) 0 (- 1)) = int (length buf)"
  shows "send env packet c =
     (Returned,
      c\<lparr>socket := snd (Send env (socket c) (concat (const_buffer_sequence env packet))
                        (length (concat (const_buffer_sequence env packet))) 0 (- 1)),
        trace := trace c @ [Engine_send packet,
                   Socket_Send (concat (const_buffer_sequence env packet))
                     (length (concat (const_buffer_sequence env packet))) 0 (- 1)]\<rparr>)"
proof -
  let ?flat = "concat (const_buffer_sequence env packet)"
  let ?c0 = "record_event (Engine_send packet) c"
  obtain sent sock where s: "Send env (socket ?c0) ?flat (length ?flat) 0 (- 1) = (sent, sock)"
    by (cases "Send env (socket ?c0) ?flat (length ?flat) 0 (- 1)")
  with assms have "sent = int (length ?flat)"
    by (metis fst_conv)
  then have good: "\<not> (sent < 0 \<or> nat sent \<noteq> length ?flat)"
    by simp
  have "socket ?c0 = socket c"
    by (simp add: record_event_def)
  with s have "snd (Send env (socket c) ?flat (length ?flat) 0 (- 1)) = sock"
    by simp
  then show ?thesis
    unfolding send_def on_send_unfold [OF s] using good
    by (simp add: record_event_def)
qed

text \<open>
  Releasing and acquiring keep a pool that lists every free identifier once; an
  acquired identifier was in the pool and is out of it afterwards.
\<close>

lemma distinct_pool_release:
  "distinct (pid_pool c) \<Longrightarrow> distinct (pid_pool (release_packet_id pid c))"
  by (simp add: release_packet_id_def on_packet_id_release_def record_event_def)

lemma distinct_pool_acquire:
  "distinct (pid_pool c) \<Longrightarrow> distinct (pid_pool (snd (acquire_unique_packet_id c)))"
  by (cases "pid_pool c")
     (simp_all add: acquire_unique_packet_id_def record_event_def distinct_removeAll)

lemma acquired_leaves_pool:
  "acquire_unique_packet_id c = (Some pid, c') \<Longrightarrow>
   pid \<in> set (pid_pool c) \<and> pid \<notin> set (pid_pool c')"
  by (auto simp: acquire_unique_packet_id_def record_event_def split: list.splits)

lemma acquire_None: "(fst (acquire_unique_packet_id c) = None) = (pid_pool c = [])"
  by (simp add: acquire_unique_packet_id_def split: list.splits)

text \<open>
  On a transport that writes every buffer in full, the handling of a successful
  connect-acknowledgement depends on the pool alone.
\<close>

lemma connack_unfold:
  assumes full: "\<forall>s buf. fst (Send env s buf (length buf) 0 (- 1)) = int (length buf)"
    and ok: "\<not> make_error_code code"
  shows "on_receive env (connack_packet code) c =
     (case pid_pool c of
        [] \<Rightarrow>
          (Undefined_behaviour,
           c\<lparr>socket :=
               socket_after env (publish_packet None ''topic1'' ''payload1'' at_most_once) (socket c),
             trace := trace c @
               [Engine_send (publish_packet None ''topic1'' ''payload1'' at_most_once),
                transport_write env (publish_packet None ''topic1'' ''payload1'' at_most_once),
                Engine_acquire_unique_packet_id None]\<rparr>)
      | pid2 # free2 \<Rightarrow>
         (case removeAll pid2 free2 of
            [] \<Rightarrow>
             (Undefined_behaviour,
              c\<lparr>socket :=
                  socket_after env (publish_packet (Some pid2) ''topic2'' ''payload2'' at_least_once)
                    (socket_after env (publish_packet None ''topic1'' ''payload1'' at_most_once)
                       (socket c)),
                pid_pool := [],
                trace := trace c @
                  [Engine_send (publish_packet None ''topic1'' ''payload1'' at_most_once),
                   transport_write env (publish_packet None ''topic1'' ''payload1'' at_most_once),
                   Engine_acquire_unique_packet_id (Some pid2),
                   Engine_send (publish_packet (Some pid2) ''topic2'' ''payload2'' at_least_once),
                   transport_write env (publish_packet (Some pid2) ''topic2'' ''payload2'' at_least_once),
                   Engine_acquire_unique_packet_id None]\<rparr>)
          | pid3 # free3 \<Rightarrow>
             (Returned,
              c\<lparr>socket :=
                  socket_after env (publish_packet (Some pid3) ''topic3'' ''payload3'' exactly_once)
                    (socket_after env (publish_packet (Some pid2) ''topic2'' ''payload2'' at_least_once)
                       (socket_after env (publish_packet None ''topic1'' ''payload1'' at_most_once)
                          (socket c))),
                pid_pool := removeAll pid3 free3,
                trace := trace c @
                  [Engine_send (publish_packet None ''topic1'' ''payload1'' at_most_once),
                   transport_write env (publish_packet None ''topic1'' ''payload1'' at_most_once),
                   Engine_acquire_unique_packet_id (Some pid2),
                   Engine_send (publish_packet (Some pid2) ''topic2'' ''payload2'' at_least_once),
                   transport_write env (publish_packet (Some pid2) ''topic2'' ''payload2'' at_least_once),
                   Engine_acquire_unique_packet_id (Some pid3),
                   Engine_send (publish_packet (Some pid3) ''topic3'' ''payload3'' exactly_once),
                   transport_write env (publish_packet (Some pid3) ''topic3'' ''payload3'' exactly_once)]\<rparr>)))"
  using ok
  by (simp add: send_written_in_full [OF full] and_then_def dereference_def
        acquire_unique_packet_id_def record_event_def transport_write_def socket_after_def
        split: list.splits)

lemma two_free_identifiers:
  assumes "2 \<le> card (set pool)"
  obtains pid2 free2 pid3 free3 where "pool = pid2 # free2" and "removeAll pid2 free2 = pid3 # free3"
proof -
  from assms have "pool \<noteq> []"
    by auto
  then obtain pid2 free2 where pool: "pool = pid2 # free2"
    by (cases pool) auto
  have "removeAll pid2 free2 \<noteq> []"
  proof
    assume "removeAll pid2 free2 = []"
    then have "set free2 - {pid2} = {}"
      by (metis set_removeAll set_empty)
    then have "set pool = {pid2}"
      by (auto simp: pool)
    with assms show False
      by simp
  qed
  then obtain pid3 free3 where "removeAll pid2 free2 = pid3 # free3"
    by (cases "removeAll pid2 free2") auto
  with pool that show thesis
    by blast
qed

text \<open>
  Claim C3, as the code has it. For every connect-acknowledgement with a success reason
  code that is received while the pool holds at least two free identifiers and the
  transport writes every buffer in full, \<^verbatim>\<open>on_receive\<close> returns after exactly three
  publishes in this order: one at QoS 0 without an identifier, one at QoS 1 with the
  identifier acquired just before it, one at QoS 2 with the identifier acquired just
  before it. The two identifiers differ, were free before and are not free afterwards.
\<close>

theorem successful_connack_publishes:
  assumes full: "\<forall>s buf. fst (Send env s buf (length buf) 0 (- 1)) = int (length buf)"
    and ok: "\<not> make_error_code code"
    and two: "2 \<le> card (set (pid_pool c))"
  shows "\<exists>pid2 pid3.
         pid2 \<noteq> pid3
       \<and> pid2 \<in> set (pid_pool c) \<and> pid3 \<in> set (pid_pool c)
       \<and> fst (on_receive env (connack_packet code) c) = Returned
       \<and> issued c (snd (on_receive env (connack_packet code) c)) =
           [Engine_send (publish_packet None ''topic1'' ''payload1'' at_most_once),
            transport_write env (publish_packet None ''topic1'' ''payload1'' at_most_once),
            Engine_acquire_unique_packet_id (Some pid2),
            Engine_send (publish_packet (Some pid2) ''topic2'' ''payload2'' at_least_once),
            transport_write env (publish_packet (Some pid2) ''topic2'' ''payload2'' at_least_once),
            Engine_acquire_unique_packet_id (Some pid3),
            Engine_send (publish_packet (Some pid3) ''topic3'' ''payload3'' exactly_once),
            transport_write env (publish_packet (Some pid3) ''topic3'' ''payload3'' exactly_once)]
       \<and> sent_packets (issued c (snd (on_receive env (connack_packet code) c))) =
           [publish_packet None ''topic1'' ''payload1'' at_most_once,
            publish_packet (Some pid2) ''topic2'' ''payload2'' at_least_once,
            publish_packet (Some pid3) ''topic3'' ''payload3'' exactly_once]
       \<and> pid2 \<notin> set (pid_pool (snd (on_receive env (connack_packet code) c)))
       \<and> pid3 \<notin> set (pid_pool (snd (on_receive env (connack_packet code) c)))"
proof -
  from two obtain pid2 free2 pid3 free3
    where pool: "pid_pool c = pid2 # free2" and rest: "removeAll pid2 free2 = pid3 # free3"
    by (rule two_free_identifiers)
  have in_rest: "pid3 \<in> set (removeAll pid2 free2)" and sub: "set free3 \<subseteq> set (removeAll pid2 free2)"
    by (simp_all add: rest) auto
  then have ids: "pid2 \<noteq> pid3" "pid3 \<in> set free2" "pid2 \<notin> set free3"
    by auto
  have res: "on_receive env (connack_packet code) c = (Returned,
           c\<lparr>socket :=
               socket_after env (publish_packet (Some pid3) ''topic3'' ''payload3'' exactly_once)
                 (socket_after env (publish_packet (Some pid2) ''topic2'' ''payload2'' at_least_once)
                    (socket_after env (publish_packet None ''topic1'' ''payload1'' at_most_once)
                       (socket c))),
             pid_pool := removeAll pid3 free3,
             trace := trace c @
               [Engine_send (publish_packet None ''topic1'' ''payload1'' at_most_once),
                transport_write env (publish_packet None ''topic1'' ''payload1'' at_most_once),
                Engine_acquire_unique_packet_id (Some pid2),
                Engine_send (publish_packet (Some pid2) ''topic2'' ''payload2'' at_least_once),
                transport_write env (publish_packet (Some pid2) ''topic2'' ''payload2'' at_least_once),
                Engine_acquire_unique_packet_id (Some pid3),
                Engine_send (publish_packet (Some pid3) ''topic3'' ''payload3'' exactly_once),
                transport_write env (publish_packet (Some pid3) ''topic3'' ''payload3'' exactly_once)]\<rparr>)"
    unfolding connack_unfold [OF full ok] pool by (simp add: rest)
  have "trace (snd (on_receive env (connack_packet code) c)) = trace c @
               [Engine_send (publish_packet None ''topic1'' ''payload1'' at_most_once),
                transport_write env (publish_packet None ''topic1'' ''payload1'' at_most_once),
                Engine_acquire_unique_packet_id (Some pid2),
                Engine_send (publish_packet (Some pid2) ''topic2'' ''payload2'' at_least_once),
                transport_write env (publish_packet (Some pid2) ''topic2'' ''payload2'' at_least_once),
                Engine_acquire_unique_packet_id (Some pid3),
                Engine_send (publish_packet (Some pid3) ''topic3'' ''payload3'' exactly_once),
                transport_write env (publish_packet (Some pid3) ''topic3'' ''payload3'' exactly_once)]"
    unfolding res by simp
  note iss = issuedI [OF this]
  have out: "fst (on_receive env (connack_packet code) c) = Returned"
    and after: "pid_pool (snd (on_receive env (connack_packet code) c)) = removeAll pid3 free3"
    unfolding res by simp_all
  have "pid2 \<notin> set (removeAll pid3 free3)" and "pid3 \<notin> set (removeAll pid3 free3)"
    using ids by simp_all
  with ids out show ?thesis
    unfolding iss after pool
    by (intro exI [of _ pid2] exI [of _ pid3]) (simp add: transport_write_def)
qed

theorem successful_connack_publishes_witness:
  "\<exists>pid2 pid3.
     pid2 \<noteq> pid3
   \<and> pid2 \<in> set [1, 2, 3 :: packet_id_type] \<and> pid3 \<in> set [1, 2, 3 :: packet_id_type]
   \<and> fst (on_receive writing_transport (connack_packet 0) (fresh_connection [1, 2, 3])) = Returned
   \<and> sent_packets (issued (fresh_connection [1, 2, 3])
         (snd (on_receive writing_transport (connack_packet 0) (fresh_connection [1, 2, 3])))) =
       [publish_packet None ''topic1'' ''payload1'' at_most_once,
        publish_packet (Some pid2) ''topic2'' ''payload2'' at_least_once,
        publish_packet (Some pid3) ''topic3'' ''payload3'' exactly_once]"
proof -
  have full: "\<forall>s buf. fst (Send writing_transport s buf (length buf) 0 (- 1)) = int (length buf)"
    by (simp add: writing_transport_def)
  have ok: "\<not> make_error_code 0"
    by (simp add: make_error_code_def)
  have two: "2 \<le> card (set (pid_pool (fresh_connection [1, 2, 3])))"
    by (simp add: fresh_connection_def)
  have pool: "pid_pool (fresh_connection [1, 2, 3]) = [1, 2, 3]"
    by (simp add: fresh_connection_def)
  from successful_connack_publishes [OF full ok two] show ?thesis
    unfolding pool by blast
qed

text \<open>
  The claim as the spec words it, for every successful connect-acknowledgement, fails
  when the transport writes the first publish short: \<^verbatim>\<open>on_send\<close> raises, nothing in
  \<^verbatim>\<open>on_receive\<close> catches, and one publish has been issued, not three.
\<close>

theorem short_write_counterexample:
  "fst (on_receive short_transport (connack_packet 0) (fresh_connection [1, 2]))
       = Thrown_system_error ''send failed''
   \<and> sent_packets (trace (snd (on_receive short_transport (connack_packet 0) (fresh_connection [1, 2]))))
       = [publish_packet None ''topic1'' ''payload1'' at_most_once]"
  by (simp add: make_error_code_def and_then_def dereference_def send_def on_send_def
        on_send_try_def short_transport_def sample_buffers_def
        fresh_connection_def record_event_def release_if_given_def memcpy_def)

text \<open>
  Claim C9, as the code has it. In the handling of a successful connect-acknowledgement
  the result of each identifier acquisition is dereferenced without a check: whenever
  the first or the second acquisition is reached and yields the empty result, the
  behaviour of the handler is undefined.
\<close>

theorem acquisition_dereferenced_unchecked:
  assumes ok: "\<not> make_error_code code"
  shows "(send env (publish_packet None ''topic1'' ''payload1'' at_most_once) c = (Returned, c1)
          \<and> fst (acquire_unique_packet_id c1) = None
          \<longrightarrow> fst (on_receive env (connack_packet code) c) = Undefined_behaviour)
       \<and> (send env (publish_packet None ''topic1'' ''payload1'' at_most_once) c = (Returned, c1)
          \<and> acquire_unique_packet_id c1 = (Some pid2, c2)
          \<and> send env (publish_packet (Some pid2) ''topic2'' ''payload2'' at_least_once) c2
               = (Returned, c3)
          \<and> fst (acquire_unique_packet_id c3) = None
          \<longrightarrow> fst (on_receive env (connack_packet code) c) = Undefined_behaviour)"
  using ok by (simp add: and_then_def dereference_def)

theorem acquisition_dereferenced_unchecked_witness:
  "fst (on_receive writing_transport (connack_packet 0) (fresh_connection [])) = Undefined_behaviour
   \<and> fst (on_receive writing_transport (connack_packet 0) (fresh_connection [5]))
       = Undefined_behaviour"
proof -
  let ?P1 = "publish_packet None ''topic1'' ''payload1'' at_most_once"
  let ?P2 = "publish_packet (Some 5) ''topic2'' ''payload2'' at_least_once"
  have full: "\<forall>s buf. fst (Send writing_transport s buf (length buf) 0 (- 1)) = int (length buf)"
    by (simp add: writing_transport_def)
  have ok: "\<not> make_error_code 0"
    by (simp add: make_error_code_def)
  obtain a1 where a1: "send writing_transport ?P1 (fresh_connection []) = (Returned, a1)"
    and a1_pool: "pid_pool a1 = []"
    by (simp add: send_written_in_full [OF full] fresh_connection_def)
  have a_none: "fst (acquire_unique_packet_id a1) = None"
    by (simp add: acquire_None a1_pool)
  obtain b1 where b1: "send writing_transport ?P1 (fresh_connection [5]) = (Returned, b1)"
    and b1_pool: "pid_pool b1 = [5]"
    by (simp add: send_written_in_full [OF full] fresh_connection_def)
  obtain b2 where b2: "acquire_unique_packet_id b1 = (Some 5, b2)" and b2_pool: "pid_pool b2 = []"
    by (simp add: acquire_unique_packet_id_def b1_pool record_event_def)
  obtain b3 where b3: "send writing_transport ?P2 b2 = (Returned, b3)" and b3_pool: "pid_pool b3 = []"
    by (simp add: send_written_in_full [OF full] b2_pool)
  have b_none: "fst (acquire_unique_packet_id b3) = None"
    by (simp add: acquire_None b3_pool)
  from acquisition_dereferenced_unchecked [OF ok, of writing_transport "fresh_connection []" a1]
       acquisition_dereferenced_unchecked
         [OF ok, of writing_transport "fresh_connection [5]" b1 5 b2 b3]
       a1 a_none b1 b2 b3 b_none
  show ?thesis
    by (simp del: on_receive.simps)
qed

text \<open>
  The claim as the spec words it, that the empty result is handled and the dereference
  guarded, fails: with one free identifier the second acquisition yields the empty
  result and is dereferenced.
\<close>

theorem unguarded_dereference_counterexample:
  "fst (on_receive writing_transport (connack_packet 0) (fresh_connection [5])) = Undefined_behaviour
   \<and> last (trace (snd (on_receive writing_transport (connack_packet 0) (fresh_connection [5]))))
       = Engine_acquire_unique_packet_id None"
  by (simp add: make_error_code_def and_then_def dereference_def send_def on_send_def
        on_send_try_def writing_transport_def sample_buffers_def fresh_connection_def
        record_event_def release_if_given_def memcpy_def acquire_unique_packet_id_def)

section \<open>The address value's constructor and length\<close>

lemma copied_min: "copied sz = min (unat sz) sockaddr_storage_size"
proof -
  have "unat (of_nat sockaddr_storage_size :: socklen_t) = sockaddr_storage_size"
    by (simp add: sockaddr_storage_size_def)
  then show ?thesis
    by (simp add: copied_def min_def word_le_nat_alt)
qed

lemma endpoint_from_unfold:
  assumes "copied sz \<le> length data"
  shows "endpoint_from data sz =
           Some \<lparr>d_data = take (copied sz) data @ replicate (sockaddr_storage_size - copied sz) 0,
                 d_size = sz\<rparr>"
proof -
  have "copied sz \<le> sockaddr_storage_size"
    by (simp add: copied_min)
  then have "memcpy (replicate sockaddr_storage_size 0) 0 data (copied sz) =
      Some (take (copied sz) data @ replicate (sockaddr_storage_size - copied sz) 0)"
    using assms by (simp add: memcpy_def)
  then show ?thesis
    by (simp add: endpoint_from_def)
qed

text \<open>
  Claim C7. For every source \<open>data\<close> and length \<open>sz\<close>, the source being readable for
  the bytes copied, constructing an address value from them copies exactly
  \<open>min sz capacity\<close> bytes to the front of the zero-initialised storage, whose extent
  stays the capacity, and the length of the value is \<open>sz\<close> itself, also when \<open>sz\<close>
  exceeds the capacity.
\<close>

theorem endpoint_from_truncates:
  assumes "copied sz \<le> length data"
  shows "endpoint_from data sz =
           Some \<lparr>d_data = take (copied sz) data @ replicate (sockaddr_storage_size - copied sz) 0,
                 d_size = sz\<rparr>
       \<and> copied sz = min (unat sz) sockaddr_storage_size
       \<and> length (take (copied sz) data @ replicate (sockaddr_storage_size - copied sz) 0)
            = sockaddr_storage_size"
proof -
  have "copied sz \<le> sockaddr_storage_size"
    by (simp add: copied_min)
  with assms
  have "length (take (copied sz) data @ replicate (sockaddr_storage_size - copied sz) 0)
            = sockaddr_storage_size"
    by simp
  with endpoint_from_unfold [OF assms] show ?thesis
    by (simp add: copied_min)
qed

theorem endpoint_from_truncates_witness:
  "endpoint_from (replicate 200 7) 200 = Some \<lparr>d_data = replicate 128 7, d_size = 200\<rparr>
   \<and> endpoint_from [1, 2, 3] 3 = Some \<lparr>d_data = [1, 2, 3] @ replicate 125 0, d_size = 3\<rparr>"
proof -
  have c200: "copied 200 = 128" and c3: "copied 3 = 3"
    by (simp_all add: copied_min sockaddr_storage_size_def)
  have "copied 200 \<le> length (replicate 200 (7 :: byte))"
    and "copied 3 \<le> length [1, 2, 3 :: byte]"
    by (simp_all add: c200 c3)
  from endpoint_from_truncates [OF this(1)] endpoint_from_truncates [OF this(2)]
  show ?thesis
    by (simp add: c200 c3 sockaddr_storage_size_def)
qed

lemma construct_storage_and_length:
  assumes "construct k = Some e0"
  shows "length (d_data e0) = sockaddr_storage_size \<and> d_size e0 = given_length k"
proof (cases k)
  case Default_constructed
  with assms show ?thesis
    by (auto simp: endpoint_default_def)
next
  case (Constructed_from data sz)
  with assms have built: "endpoint_from data sz = Some e0"
    by simp
  then have fits: "copied sz \<le> length data"
    by (auto simp: endpoint_from_def memcpy_def split: if_splits)
  have "copied sz \<le> sockaddr_storage_size"
    by (simp add: copied_min)
  with endpoint_from_unfold [OF fits] built fits Constructed_from show ?thesis
    by auto
qed

lemma access_storage_and_length:
  assumes "access a e = Some e'" and "length (d_data e) = sockaddr_storage_size"
  shows "length (d_data e') = sockaddr_storage_size \<and> d_size e' = stored_length (d_size e) [a]"
proof (cases a)
  case (Write_storage off bytes)
  with assms show ?thesis
    by (auto simp: memcpy_def split: if_splits)
next
  case (Assign_size sz)
  with assms show ?thesis
    by auto
qed

lemma stored_length_step: "stored_length sz (a # as) = stored_length (stored_length sz [a]) as"
  by (cases a) simp_all

lemma accesses_storage_and_length:
  "accesses as e = Some e' \<Longrightarrow> length (d_data e) = sockaddr_storage_size \<Longrightarrow>
   length (d_data e') = sockaddr_storage_size \<and> d_size e' = stored_length (d_size e) as"
proof (induction as arbitrary: e)
  case Nil
  then show ?case by simp
next
  case (Cons a as)
  from Cons.prems(1) obtain e1 where a: "access a e = Some e1" and rest: "accesses as e1 = Some e'"
    by (auto split: option.splits)
  from access_storage_and_length [OF a Cons.prems(2)]
  have e1: "length (d_data e1) = sockaddr_storage_size" "d_size e1 = stored_length (d_size e) [a]"
    by simp_all
  from Cons.IH [OF rest e1(1)] e1(2) show ?case
    by (simp add: stored_length_step [of "d_size e" a as])
qed

lemma stored_length_within_capacity:
  "within_capacity sz \<Longrightarrow> \<forall>a \<in> set as. access_within_capacity a \<Longrightarrow>
   within_capacity (stored_length sz as)"
proof (induction as arbitrary: sz)
  case Nil
  then show ?case by simp
next
  case (Cons a as)
  then show ?case
    by (cases a) simp_all
qed

text \<open>
  Claim C8, as the code has it. The storage always has exactly the capacity. The length
  field holds the length that the byte constructor was given (the capacity after the
  default constructor) or, after assignments through \<^verbatim>\<open>size()\<close>, the last length
  assigned, stored unchanged whether or not it exceeds the capacity. So it does not
  exceed the capacity exactly when that length does not, and in particular in every
  state reached from the default constructor, or from the byte constructor with a
  length within the capacity, through accessors that assign lengths within the
  capacity.
\<close>

theorem length_within_capacity:
  assumes "construct k = Some e0" and "accesses as e0 = Some e"
  shows "length (d_data e) = sockaddr_storage_size
       \<and> d_size e = stored_length (given_length k) as
       \<and> (unat (d_size e) \<le> sockaddr_storage_size)
           = within_capacity (stored_length (given_length k) as)
       \<and> (within_capacity (given_length k) \<and> (\<forall>a \<in> set as. access_within_capacity a)
            \<longrightarrow> unat (d_size e) \<le> sockaddr_storage_size)"
proof -
  from construct_storage_and_length [OF assms(1)]
  have e0: "length (d_data e0) = sockaddr_storage_size" "d_size e0 = given_length k"
    by simp_all
  from accesses_storage_and_length [OF assms(2) e0(1)] e0(2)
  have e: "length (d_data e) = sockaddr_storage_size" "d_size e = stored_length (given_length k) as"
    by simp_all
  then show ?thesis
    using stored_length_within_capacity [of "given_length k" as]
    by (auto simp: within_capacity_def)
qed

theorem length_within_capacity_witness:
  "construct (Constructed_from [1, 2, 3] 3)
     = Some \<lparr>d_data = [1, 2, 3] @ replicate 125 0, d_size = 3\<rparr>
   \<and> accesses [Write_storage 1 [9], Assign_size 16]
         \<lparr>d_data = [1, 2, 3] @ replicate 125 0, d_size = 3\<rparr>
       = Some \<lparr>d_data = [1, 9, 3] @ replicate 125 0, d_size = 16\<rparr>
   \<and> within_capacity 3
   \<and> access_within_capacity (Write_storage 1 [9]) \<and> access_within_capacity (Assign_size 16)
   \<and> unat (d_size \<lparr>d_data = [1, 9, 3] @ replicate 125 0, d_size = 16\<rparr>) \<le> sockaddr_storage_size
   \<and> accesses [Assign_size 300] \<lparr>d_data = [1, 2, 3] @ replicate 125 0, d_size = 3\<rparr>
       = Some \<lparr>d_data = [1, 2, 3] @ replicate 125 0, d_size = 300\<rparr>
   \<and> stored_length (given_length (Constructed_from [1, 2, 3] 3)) [Assign_size 300] = 300
   \<and> \<not> within_capacity 300"
proof -
  let ?e0 = "\<lparr>d_data = [1, 2, 3] @ replicate 125 0, d_size = 3 :: socklen_t\<rparr>"
  have built: "construct (Constructed_from [1, 2, 3] 3) = Some ?e0"
    by (simp add: endpoint_from_def memcpy_def copied_min sockaddr_storage_size_def)
  have fits: "within_capacity 3" and over: "\<not> within_capacity 300"
    by (simp_all add: within_capacity_def sockaddr_storage_size_def)
  have each: "\<forall>a \<in> set [Write_storage 1 [9], Assign_size 16]. access_within_capacity a"
    by (simp add: within_capacity_def sockaddr_storage_size_def)
  have run: "accesses [Write_storage 1 [9], Assign_size 16] ?e0
       = Some \<lparr>d_data = [1, 9, 3] @ replicate 125 0, d_size = 16\<rparr>"
    by (simp add: memcpy_def)
  have run': "accesses [Assign_size 300] ?e0
       = Some \<lparr>d_data = [1, 2, 3] @ replicate 125 0, d_size = 300\<rparr>"
    by simp
  from length_within_capacity [OF built run] length_within_capacity [OF built run']
       built fits over each run run'
  show ?thesis
    by simp
qed

text \<open>
  The claim as the spec words it, for every state reachable through the constructors,
  fails: the byte constructor stores a length of 200 as it is, above the capacity of
  128.
\<close>

theorem oversized_length_counterexample:
  "endpoint_from (replicate 200 7) 200 = Some \<lparr>d_data = replicate 128 7, d_size = 200\<rparr>
   \<and> \<not> unat (200 :: socklen_t) \<le> sockaddr_storage_size"
  by (simp add: endpoint_from_def memcpy_def copied_min sockaddr_storage_size_def)

end
